theory Spec2Isabelle
  imports Main
begin

section \<open>Kubernetes objects as the views read them\<close>

text \<open>
  The records follow the typings of the Kubernetes client that \<^verbatim>\<open>DeploymentsTable.tsx\<close>
  imports. A field is an \<open>option\<close> exactly where the source tests it for presence
  (\<^verbatim>\<open>!!x\<close>, \<^verbatim>\<open>x != null\<close>, \<^verbatim>\<open>x && ...\<close>, \<^verbatim>\<open>x || ...\<close>); \<open>None\<close> stands for
  \<^verbatim>\<open>undefined\<close> or \<^verbatim>\<open>null\<close>. Record fields are global names in HOL, so a field name that
  occurs in two interfaces carries a prefix in all but one of them.
  Counts are whole numbers (\<open>int\<close>), creation timestamps are the milliseconds that
  \<^verbatim>\<open>Date.getTime()\<close> returns (\<open>int\<close>), strings are ASCII.
\<close>

type_synonym annotations = "(string \<times> string) list"

record V1OwnerReference =
  owner_uid :: string

record V1ObjectMeta =
  name :: string
  namespace :: string
  uid :: string
  annotations :: "annotations option"
  creationTimestamp :: "int option"
  ownerReferences :: "V1OwnerReference list option"

record V1Container =
  image :: string

record V1PodSpec =
  containers :: "V1Container list"

record V1PodTemplateSpec =
  pod_spec :: V1PodSpec

record V1ReplicaSetSpec =
  template :: V1PodTemplateSpec

record V1ReplicaSetStatus =
  availableReplicas :: "int option"
  replicas :: "int option"

record V1ReplicaSet =
  kind :: "string option"
  metadata :: V1ObjectMeta
  spec :: V1ReplicaSetSpec
  status :: V1ReplicaSetStatus

record V1ReplicaSetList =
  items :: "V1ReplicaSet list option"

record V1Deployment =
  deployment_metadata :: V1ObjectMeta

text \<open>\<^verbatim>\<open>IDeploymentReplicaSetMap\<close> of \<^verbatim>\<open>Types.ts\<close>.\<close>

record IDeploymentReplicaSetMap =
  deployment :: V1Deployment
  replicaSets :: "V1ReplicaSet list"

section \<open>Strings\<close>

text \<open>
  \<^verbatim>\<open>String.prototype.toLowerCase\<close> on ASCII text: the letters \<open>A\<close> to \<open>Z\<close> (codes 65 to 90)
  move to \<open>a\<close> to \<open>z\<close> (add 32), every other character stays.
\<close>

definition toLowerCaseChar :: "char \<Rightarrow> char" where
  "toLowerCaseChar c =
     (let n = (of_char c :: nat)
      in if 65 \<le> n \<and> n \<le> 90 then char_of (n + 32) else c)"

definition toLowerCase :: "string \<Rightarrow> string" where
  "toLowerCase s = map toLowerCaseChar s"

text \<open>
  The specification's wording, "equal case-insensitively", stated on its own: two strings
  of the same length whose characters agree position by position up to the case of a
  letter.
\<close>

definition same_letter :: "char \<Rightarrow> char \<Rightarrow> bool" where
  "same_letter a b =
     (let m = (of_char a :: nat); n = (of_char b :: nat)
      in m = n \<or> (65 \<le> m \<and> m \<le> 90 \<and> n = m + 32)
               \<or> (65 \<le> n \<and> n \<le> 90 \<and> m = n + 32))"

definition equal_ignoring_case :: "string \<Rightarrow> string \<Rightarrow> bool" where
  "equal_ignoring_case s t = list_all2 same_letter s t"

section \<open>DeploymentsTable: the deployment to replica set association\<close>

text \<open>
  \<^verbatim>\<open>_isReplicaSetForDeployment\<close> (a leading underscore is not an Isabelle name). The result
  is the truthiness of the source's \<^verbatim>\<open>&&\<close> chain, which is how \<^verbatim>\<open>Array.filter\<close> reads it:
  a missing \<^verbatim>\<open>ownerReferences\<close> makes the chain \<^verbatim>\<open>undefined\<close>, an empty one \<^verbatim>\<open>false\<close>.
  \<^verbatim>\<open>ownerReferences[0]\<close> is read only behind the \<^verbatim>\<open>length > 0\<close> test.
\<close>

definition isReplicaSetForDeployment :: "V1Deployment option \<Rightarrow> V1ReplicaSet option \<Rightarrow> bool" where
  "isReplicaSetForDeployment deployment_arg replica_arg =
     (case deployment_arg of
        None \<Rightarrow> False
      | Some d \<Rightarrow>
         (case replica_arg of
            None \<Rightarrow> False
          | Some r \<Rightarrow>
              toLowerCase (namespace (metadata r)) = toLowerCase (namespace (deployment_metadata d))
              \<and> (case ownerReferences (metadata r) of
                    None \<Rightarrow> False
                  | Some refs \<Rightarrow>
                      length refs > 0
                      \<and> toLowerCase (owner_uid (refs ! 0)) = toLowerCase (uid (deployment_metadata d)))))"

text \<open>
  \<^verbatim>\<open>_getCreationTime\<close>. With no creation timestamp the source reads the clock
  (\<^verbatim>\<open>new Date()\<close>); \<open>now\<close> is that reading, in milliseconds, taken as one value for the
  duration of a sort.
\<close>

definition getCreationTime :: "int \<Rightarrow> V1ObjectMeta \<Rightarrow> int" where
  "getCreationTime now meta =
     (case creationTimestamp meta of Some t \<Rightarrow> t | None \<Rightarrow> now)"

text \<open>
  \<^verbatim>\<open>Array.prototype.sort(compareFn)\<close>, which ECMAScript 2019 requires to be stable: an
  element goes in front of the first element that \<open>compareFn\<close> does not put before it.
  Elements are inserted from the right, so of two elements that compare as equal the one
  that stood first stays first.
\<close>

fun insert_by :: "('a \<Rightarrow> 'a \<Rightarrow> int) \<Rightarrow> 'a \<Rightarrow> 'a list \<Rightarrow> 'a list" where
  "insert_by compareFn x [] = [x]"
| "insert_by compareFn x (y # ys) =
     (if compareFn x y \<le> 0 then x # y # ys else y # insert_by compareFn x ys)"

definition array_sort :: "('a \<Rightarrow> 'a \<Rightarrow> int) \<Rightarrow> 'a list \<Rightarrow> 'a list" where
  "array_sort compareFn xs = foldr (insert_by compareFn) xs []"

text \<open>The comparator of \<^verbatim>\<open>_generateDeploymentReplicaSetMap\<close> ("descending order").\<close>

definition compareCreationTime :: "int \<Rightarrow> V1ReplicaSet \<Rightarrow> V1ReplicaSet \<Rightarrow> int" where
  "compareCreationTime now a b =
     getCreationTime now (metadata b) - getCreationTime now (metadata a)"

text \<open>\<^verbatim>\<open>replicaSetList && replicaSetList.items || []\<close>.\<close>

definition replicaSetItems :: "V1ReplicaSetList option \<Rightarrow> V1ReplicaSet list" where
  "replicaSetItems replicaSetList =
     (case replicaSetList of
        None \<Rightarrow> []
      | Some l \<Rightarrow> (case items l of None \<Rightarrow> [] | Some rs \<Rightarrow> rs))"

text \<open>
  The body of the \<^verbatim>\<open>forEach\<close> of \<^verbatim>\<open>_generateDeploymentReplicaSetMap\<close>: filter, sort, and
  the entry that is pushed.
\<close>

definition deploymentEntry :: "int \<Rightarrow> V1ReplicaSetList option \<Rightarrow> V1Deployment \<Rightarrow> IDeploymentReplicaSetMap" where
  "deploymentEntry now replicaSetList d =
     (let filteredReplicas =
            filter (\<lambda>replica. isReplicaSetForDeployment (Some d) (Some replica))
              (replicaSetItems replicaSetList)
      in \<lparr>deployment = d,
          replicaSets = array_sort (compareCreationTime now) filteredReplicas\<rparr>)"

definition generateDeploymentReplicaSetMap ::
  "int \<Rightarrow> V1Deployment list \<Rightarrow> V1ReplicaSetList option \<Rightarrow> IDeploymentReplicaSetMap list" where
  "generateDeploymentReplicaSetMap now deploymentList replicaSetList =
     foldl (\<lambda>deploymentReplicaSetMap d.
              deploymentReplicaSetMap @ [deploymentEntry now replicaSetList d])
       [] deploymentList"

section \<open>DeploymentsTable: rows\<close>

text \<open>\<^verbatim>\<open>Statuses.Running\<close> and \<^verbatim>\<open>Statuses.Success\<close>, the two status props the table uses.\<close>

datatype Statuses = Running | Success

text \<open>\<^verbatim>\<open>IDeploymentReplicaSetItem\<close> of \<^verbatim>\<open>Types.ts\<close>.\<close>

record IDeploymentReplicaSetItem =
  item_name :: "string option"
  replicaSetName :: "string option"
  deploymentId :: "string option"
  replicaSetId :: "string option"
  pipeline :: "string option"
  pods :: "string option"
  statusProps :: "Statuses option"
  showRowBorder :: "bool option"
  item_deployment :: "V1Deployment option"
  item_image :: string
  creationTimeStamp :: "int option"
  item_kind :: "string option"

text \<open>The decimal form of a whole number, as string conversion of a JavaScript number gives it.\<close>

fun digits :: "nat \<Rightarrow> string" where
  "digits n =
     (if n < 10 then [char_of (48 + n)]
      else digits (n div 10) @ [char_of (48 + n mod 10)])"

declare digits.simps [simp del]

definition number_toString :: "int \<Rightarrow> string" where
  "number_toString i =
     (if i < 0 then CHR ''-'' # digits (nat (- i)) else digits (nat i))"

text \<open>
  \<^verbatim>\<open>format(s, ...values)\<close> of the UI utilities, which the table imports: every \<^verbatim>\<open>{n}\<close> of the
  template (a brace, one or more digits, a brace) is replaced by the \<open>n\<close>-th value, or by
  nothing when there is no such value; every other character is kept. A key is looked up
  as it is written, so one with a leading zero finds nothing. The values are given in their
  string form.
\<close>

definition isDigit :: "char \<Rightarrow> bool" where
  "isDigit c = (let n = (of_char c :: nat) in 48 \<le> n \<and> n \<le> 57)"

definition parseDecimal :: "string \<Rightarrow> nat" where
  "parseDecimal ds = foldl (\<lambda>v c. 10 * v + (of_char c - 48)) 0 ds"

definition argument :: "string list \<Rightarrow> string \<Rightarrow> string" where
  "argument args key =
     (let n = parseDecimal key
      in if digits n = key \<and> n < length args then args ! n else '''')"

function format :: "string \<Rightarrow> string list \<Rightarrow> string" where
  "format [] args = []"
| "format (c # cs) args =
     (if c = CHR ''{'' \<and> takeWhile isDigit cs \<noteq> []
         \<and> (case dropWhile isDigit cs of [] \<Rightarrow> False | e # _ \<Rightarrow> e = CHR ''}'')
      then argument args (takeWhile isDigit cs) @ format (tl (dropWhile isDigit cs)) args
      else c # format cs args)"
  by pat_completeness auto
termination
proof (relation "measure (\<lambda>(s, args). length s)")
  show "wf (measure (\<lambda>(s, args). length s))" by simp
next
  fix c :: char and cs :: string and args :: "string list"
  have "length (tl (dropWhile isDigit cs)) \<le> length cs"
    using length_dropWhile_le [of isDigit cs] by simp
  then show "((tl (dropWhile isDigit cs), args), c # cs, args) \<in> measure (\<lambda>(s, args). length s)"
    by simp
next
  fix c :: char and cs :: string and args :: "string list"
  show "((cs, args), c # cs, args) \<in> measure (\<lambda>(s, args). length s)"
    by simp
qed

declare format.simps [simp del]

definition getPodsText :: "int option \<Rightarrow> int option \<Rightarrow> string" where
  "getPodsText availableReplicas' replicas' =
     (case replicas' of
        None \<Rightarrow> ''''
      | Some r \<Rightarrow>
         (case availableReplicas' of
            None \<Rightarrow> ''''
          | Some a \<Rightarrow>
              if r > 0 then format ''{0}/{1}'' [number_toString a, number_toString r]
              else ''''))"

definition getPodsStatusProps :: "int option \<Rightarrow> int option \<Rightarrow> Statuses option" where
  "getPodsStatusProps availableReplicas' replicas' =
     (case replicas' of
        None \<Rightarrow> None
      | Some r \<Rightarrow>
         (case availableReplicas' of
            None \<Rightarrow> None
          | Some a \<Rightarrow> if r > 0 then Some (if a < r then Running else Success) else None))"

text \<open>
  \<^verbatim>\<open>_getDeploymentReplicaSetItem\<close>. \<^verbatim>\<open>Utils.getPipelineText\<close> is not among the sources and is
  a parameter. \<^verbatim>\<open>containers[0].image\<close> on a replica set with no container reads a property of
  \<^verbatim>\<open>undefined\<close>, which throws.
\<close>

datatype js_error = TypeError

definition getDeploymentReplicaSetItem ::
  "(annotations option \<Rightarrow> string) \<Rightarrow> V1Deployment \<Rightarrow> V1ReplicaSet \<Rightarrow> nat \<Rightarrow> nat
     \<Rightarrow> js_error + IDeploymentReplicaSetItem" where
  "getDeploymentReplicaSetItem getPipelineText d replica index replicaSetLength =
     (let annots = (if index = 0 then annotations (deployment_metadata d)
                    else annotations (metadata replica))
      in case containers (pod_spec (template (spec replica))) of
           [] \<Rightarrow> Inl TypeError
         | c # _ \<Rightarrow>
             Inr \<lparr>item_name = Some (if index > 0 then '''' else name (deployment_metadata d)),
                  replicaSetName = Some (name (metadata replica)),
                  deploymentId = Some (uid (deployment_metadata d)),
                  replicaSetId = Some (uid (metadata replica)),
                  pipeline = Some (getPipelineText annots),
                  pods = Some (getPodsText (availableReplicas (status replica)) (replicas (status replica))),
                  statusProps = getPodsStatusProps (availableReplicas (status replica)) (replicas (status replica)),
                  showRowBorder = Some (replicaSetLength = index + 1),
                  item_deployment = Some d,
                  item_image = image c,
                  creationTimeStamp = creationTimestamp (metadata replica),
                  item_kind = Some (case kind replica of
                                      None \<Rightarrow> ''ReplicaSet''
                                    | Some k \<Rightarrow> if k = '''' then ''ReplicaSet'' else k)\<rparr>)"

text \<open>
  \<^verbatim>\<open>_getDeploymentReplicaSetItems\<close>: the \<^verbatim>\<open>forEach\<close> with its running index; an exception
  ends the loop and the call.
\<close>

fun itemsFrom ::
  "(annotations option \<Rightarrow> string) \<Rightarrow> V1Deployment \<Rightarrow> nat \<Rightarrow> nat \<Rightarrow> V1ReplicaSet list
     \<Rightarrow> IDeploymentReplicaSetItem list \<Rightarrow> js_error + IDeploymentReplicaSetItem list" where
  "itemsFrom getPipelineText d replicaSetLength index [] acc = Inr acc"
| "itemsFrom getPipelineText d replicaSetLength index (replicaSet # rest) acc =
     (case getDeploymentReplicaSetItem getPipelineText d replicaSet index replicaSetLength of
        Inl e \<Rightarrow> Inl e
      | Inr row \<Rightarrow> itemsFrom getPipelineText d replicaSetLength (index + 1) rest (acc @ [row]))"

definition getDeploymentReplicaSetItems ::
  "(annotations option \<Rightarrow> string) \<Rightarrow> V1Deployment \<Rightarrow> V1ReplicaSet list
     \<Rightarrow> js_error + IDeploymentReplicaSetItem list" where
  "getDeploymentReplicaSetItems getPipelineText d rss =
     itemsFrom getPipelineText d (length rss) 0 rss []"

section \<open>DeploymentsTable: selecting a row\<close>

record V1DeploymentList =
  deployment_items :: "V1Deployment list option"

record IDeploymentsTableState =
  deploymentList :: "V1DeploymentList option"
  replicaSetList :: "V1ReplicaSetList option"

text \<open>
  The payload handed to \<^verbatim>\<open>selectItem.invoke\<close>. \<^verbatim>\<open>Constants.ts\<close> is not among the sources;
  the value of \<^verbatim>\<open>SelectedItemKeys.ReplicaSetKey\<close> is a parameter of the handler.
\<close>

record ISelectionPayload =
  item :: V1ReplicaSet
  showSelectedItem :: bool
  selectedItemType :: string

text \<open>A string in a condition: \<^verbatim>\<open>undefined\<close> and the empty string are falsy.\<close>

definition truthy :: "string option \<Rightarrow> bool" where
  "truthy s = (case s of None \<Rightarrow> False | Some v \<Rightarrow> v \<noteq> [])"

text \<open>
  \<^verbatim>\<open>_getSelectedReplicaSet\<close>. \<^verbatim>\<open>filteredReplica[0]\<close> of an empty array is \<^verbatim>\<open>undefined\<close>; it
  and the \<^verbatim>\<open>null\<close> of the last line are both \<open>None\<close>. Each \<^verbatim>\<open>toLowerCase()\<close> call sits
  behind the test that its string is there.
\<close>

definition getSelectedReplicaSet ::
  "IDeploymentsTableState \<Rightarrow> IDeploymentReplicaSetItem option \<Rightarrow> V1ReplicaSet option" where
  "getSelectedReplicaSet st selectedItem =
     (case selectedItem of
        None \<Rightarrow> None
      | Some sel \<Rightarrow>
          if truthy (deploymentId sel) \<and> truthy (replicaSetId sel) then
            (case replicaSetId sel of
               None \<Rightarrow> None
             | Some selectedReplicaSetId \<Rightarrow>
                 (let selectedItemReplicaSetUId = toLowerCase selectedReplicaSetId;
                      filteredReplica =
                        filter (\<lambda>replica. toLowerCase (uid (metadata replica)) = selectedItemReplicaSetUId)
                          (replicaSetItems (replicaSetList st))
                  in case filteredReplica of [] \<Rightarrow> None | first # _ \<Rightarrow> Some first))
          else None)"

text \<open>
  \<^verbatim>\<open>_openDeploymentItem\<close>. The actions hub is the list of payloads that \<^verbatim>\<open>selectItem\<close> was
  invoked with, oldest first; the handler returns it with its own invocation, if any,
  appended.
\<close>

definition openDeploymentItem ::
  "string \<Rightarrow> IDeploymentsTableState \<Rightarrow> ISelectionPayload list \<Rightarrow> IDeploymentReplicaSetItem option
     \<Rightarrow> ISelectionPayload list" where
  "openDeploymentItem ReplicaSetKey st hub selectedItem =
     (case getSelectedReplicaSet st selectedItem of
        None \<Rightarrow> hub
      | Some selectedReplicaSet \<Rightarrow>
          hub @ [\<lparr>item = selectedReplicaSet, showSelectedItem = True,
                  selectedItemType = ReplicaSetKey\<rparr>])"

section \<open>WorkloadsPivot\<close>

text \<open>
  \<^verbatim>\<open>KubeResourceType\<close>: the enumeration of \<^verbatim>\<open>Contracts/KubeServiceBase\<close>, with the members
  that the sources name.
\<close>

datatype KubeResourceType =
  Pods | Deployments | ReplicaSets | Services | DaemonSets | StatefulSets

record V1Pod =
  pod_metadata :: V1ObjectMeta

record IWorkloadsPivotState =
  workloadResourceSize :: int
  orphanPodsList :: "V1Pod list option"

text \<open>What the pivot reads of the workloads store: its state and \<^verbatim>\<open>getWorkloadSize()\<close>.\<close>

record WorkloadsStore =
  store_orphanPodsList :: "V1Pod list option"
  getWorkloadSize :: int

text \<open>
  The filter state, \<^verbatim>\<open>props.filter.getState()\<close>: the values held under \<^verbatim>\<open>NameKey\<close> and under
  \<^verbatim>\<open>TypeKey\<close>, each present or not.
\<close>

record IFilterState =
  nameFilterItem :: "string option"
  typeFilterItem :: "KubeResourceType list option"

definition getNameFilterValue :: "IFilterState option \<Rightarrow> string option" where
  "getNameFilterValue filterState =
     (case filterState of None \<Rightarrow> None | Some fs \<Rightarrow> nameFilterItem fs)"

definition getTypeFilterValue :: "IFilterState option \<Rightarrow> KubeResourceType list" where
  "getTypeFilterValue filterState =
     (case filterState of
        None \<Rightarrow> []
      | Some fs \<Rightarrow> (case typeFilterItem fs of None \<Rightarrow> [] | Some selections \<Rightarrow> selections))"

text \<open>\<^verbatim>\<open>Array.prototype.indexOf\<close>: the first position of the element, or \<open>-1\<close>.\<close>

fun indexOf :: "'a list \<Rightarrow> 'a \<Rightarrow> int" where
  "indexOf [] x = - 1"
| "indexOf (y # ys) x =
     (if y = x then 0 else (let i = indexOf ys x in if i = - 1 then - 1 else i + 1))"

definition showComponent :: "IFilterState option \<Rightarrow> KubeResourceType \<Rightarrow> bool" where
  "showComponent filterState resourceType =
     (let selections = getTypeFilterValue filterState
      in if length selections > 0 then indexOf selections resourceType \<noteq> - 1 else True)"

text \<open>\<^verbatim>\<open>_onPodsFetched\<close> and \<^verbatim>\<open>_onDataFound\<close>; \<^verbatim>\<open>setState\<close> replaces the named field.\<close>

definition onPodsFetched :: "WorkloadsStore \<Rightarrow> IWorkloadsPivotState \<Rightarrow> IWorkloadsPivotState" where
  "onPodsFetched store st =
     st\<lparr>orphanPodsList :=
          Some (case store_orphanPodsList store of None \<Rightarrow> [] | Some ps \<Rightarrow> ps)\<rparr>"

definition onDataFound :: "WorkloadsStore \<Rightarrow> IWorkloadsPivotState \<Rightarrow> IWorkloadsPivotState" where
  "onDataFound store st =
     (let workloadSize = getWorkloadSize store
      in if workloadResourceSize st \<le> 0 \<and> workloadSize > 0
         then st\<lparr>workloadResourceSize := workloadSize\<rparr>
         else st)"

text \<open>
  What \<^verbatim>\<open>_getContent\<close> returns. The texts of \<^verbatim>\<open>Resources\<close> are named, not spelled out. A
  child \<^verbatim>\<open>{cond && element}\<close> of the \<^verbatim>\<open>div\<close> is \<open>None\<close> when the condition is falsy, and
  then nothing is rendered in its place. The tables carry their \<^verbatim>\<open>nameFilter\<close> prop, the
  pods table also its \<^verbatim>\<open>podsToRender\<close>.
\<close>

datatype ResourceText = LearnMoreText | NoWorkLoadsText

datatype JSXElement =
  KubeZeroData string ResourceText ResourceText ResourceText
| DeploymentsTable "string option"
| DaemonSetTable "string option"
| StatefulSetTable "string option"
| PodsTable "V1Pod list" "string option"
| Div "JSXElement option list"

definition getDeployments :: "IFilterState option \<Rightarrow> JSXElement" where
  "getDeployments filterState = DeploymentsTable (getNameFilterValue filterState)"

definition getDaemonSetsComponent :: "IFilterState option \<Rightarrow> JSXElement" where
  "getDaemonSetsComponent filterState = DaemonSetTable (getNameFilterValue filterState)"

definition getStatefulSetsComponent :: "IFilterState option \<Rightarrow> JSXElement" where
  "getStatefulSetsComponent filterState = StatefulSetTable (getNameFilterValue filterState)"

definition getOrphanPods :: "WorkloadsStore \<Rightarrow> IFilterState option \<Rightarrow> JSXElement" where
  "getOrphanPods store filterState =
     PodsTable (case store_orphanPodsList store of None \<Rightarrow> [] | Some ps \<Rightarrow> ps)
       (getNameFilterValue filterState)"

definition getContent ::
  "WorkloadsStore \<Rightarrow> IFilterState option \<Rightarrow> IWorkloadsPivotState \<Rightarrow> JSXElement" where
  "getContent store filterState st =
     (if workloadResourceSize st = 0 then
        KubeZeroData ''https://kubernetes.io/docs/concepts/workloads/pods/pod/''
          LearnMoreText NoWorkLoadsText NoWorkLoadsText
      else
        Div [if showComponent filterState Deployments
               then Some (getDeployments filterState) else None,
             if showComponent filterState DaemonSets
               then Some (getDaemonSetsComponent filterState) else None,
             if showComponent filterState StatefulSets
               then Some (getStatefulSetsComponent filterState) else None,
             if (case orphanPodsList st of None \<Rightarrow> False | Some ps \<Rightarrow> length ps > 0)
                \<and> showComponent filterState Pods
               then Some (getOrphanPods store filterState) else None])"

text \<open>
  The store events the pivot listens to, each with the store as it stands when the listener
  runs, and the pivot's state after a sequence of them.
\<close>

datatype WorkloadsEvents =
  WorkloadPodsFetchedEvent WorkloadsStore
| WorkloadsFoundEvent WorkloadsStore

fun handleEvent :: "IWorkloadsPivotState \<Rightarrow> WorkloadsEvents \<Rightarrow> IWorkloadsPivotState" where
  "handleEvent st (WorkloadPodsFetchedEvent store) = onPodsFetched store st"
| "handleEvent st (WorkloadsFoundEvent store) = onDataFound store st"

definition handleEvents :: "IWorkloadsPivotState \<Rightarrow> WorkloadsEvents list \<Rightarrow> IWorkloadsPivotState" where
  "handleEvents st events = foldl handleEvent st events"

text \<open>The state the constructor sets.\<close>

definition initialState :: IWorkloadsPivotState where
  "initialState = \<lparr>workloadResourceSize = 0, orphanPodsList = Some []\<rparr>"

text \<open>Reading a rendered element: the tables in it, and whether it is the placeholder.\<close>

fun isTable :: "JSXElement \<Rightarrow> bool" where
  "isTable (DeploymentsTable _) = True"
| "isTable (DaemonSetTable _) = True"
| "isTable (StatefulSetTable _) = True"
| "isTable (PodsTable _ _) = True"
| "isTable _ = False"

fun renderedChildren :: "JSXElement \<Rightarrow> JSXElement list" where
  "renderedChildren (Div children) = List.map_filter (\<lambda>c. c) children"
| "renderedChildren e = [e]"

definition renderedTables :: "JSXElement \<Rightarrow> JSXElement list" where
  "renderedTables e = filter isTable (renderedChildren e)"

fun isZeroData :: "JSXElement \<Rightarrow> bool" where
  "isZeroData (KubeZeroData _ _ _ _) = True"
| "isZeroData _ = False"

text \<open>The resource type a table element shows.\<close>

fun tableType :: "JSXElement \<Rightarrow> KubeResourceType option" where
  "tableType (DeploymentsTable _) = Some Deployments"
| "tableType (DaemonSetTable _) = Some DaemonSets"
| "tableType (StatefulSetTable _) = Some StatefulSets"
| "tableType (PodsTable _ _) = Some Pods"
| "tableType _ = None"

definition shownTypes :: "JSXElement \<Rightarrow> KubeResourceType list" where
  "shownTypes e = List.map_filter tableType (renderedChildren e)"

section \<open>Example data\<close>

text \<open>
  The example of the specification: deployment \<open>d1\<close> (uid \<open>u1\<close>, namespace \<open>ns\<close>) with the
  replica sets \<open>rs1\<close> (3 of 3 available, created at 200) and \<open>rs2\<close> (1 of 3 available,
  created at 100). Here \<open>rs2\<close> spells its namespace and owner uid in capitals, \<open>rs3\<close> is a
  third replica set of \<open>d1\<close> created together with \<open>rs1\<close>, \<open>rs4\<close> belongs to some other
  owner, and deployment \<open>d2\<close> owns nothing.
\<close>

definition example_meta ::
  "string \<Rightarrow> string \<Rightarrow> string \<Rightarrow> int option \<Rightarrow> string option \<Rightarrow> V1ObjectMeta" where
  "example_meta n ns u t owner =
     \<lparr>name = n, namespace = ns, uid = u, annotations = Some [(''pipeline'', n)],
      creationTimestamp = t,
      ownerReferences = (case owner of None \<Rightarrow> None | Some v \<Rightarrow> Some [\<lparr>owner_uid = v\<rparr>])\<rparr>"

definition example_rs ::
  "string \<Rightarrow> string \<Rightarrow> string \<Rightarrow> int option \<Rightarrow> string option \<Rightarrow> int option \<Rightarrow> int option
     \<Rightarrow> V1ReplicaSet" where
  "example_rs n ns u t owner a r =
     \<lparr>kind = None, metadata = example_meta n ns u t owner,
      spec = \<lparr>template = \<lparr>pod_spec = \<lparr>containers = [\<lparr>image = ''nginx''\<rparr>]\<rparr>\<rparr>\<rparr>,
      status = \<lparr>availableReplicas = a, replicas = r\<rparr>\<rparr>"

definition d1 :: V1Deployment where
  "d1 = \<lparr>deployment_metadata = example_meta ''d1'' ''ns'' ''u1'' (Some 50) None\<rparr>"

definition d2 :: V1Deployment where
  "d2 = \<lparr>deployment_metadata = example_meta ''d2'' ''ns'' ''u2'' (Some 60) None\<rparr>"

definition rs1 :: V1ReplicaSet where
  "rs1 = example_rs ''rs1'' ''ns'' ''r1'' (Some 200) (Some ''u1'') (Some 3) (Some 3)"

definition rs2 :: V1ReplicaSet where
  "rs2 = example_rs ''rs2'' ''NS'' ''r2'' (Some 100) (Some ''U1'') (Some 1) (Some 3)"

definition rs3 :: V1ReplicaSet where
  "rs3 = example_rs ''rs3'' ''ns'' ''r3'' (Some 200) (Some ''u1'') None (Some 0)"

definition rs4 :: V1ReplicaSet where
  "rs4 = example_rs ''rs4'' ''ns'' ''r4'' (Some 300) (Some ''u9'') (Some 0) (Some 2)"

definition example_list :: "V1ReplicaSetList option" where
  "example_list = Some \<lparr>items = Some [rs2, rs1, rs4, rs3]\<rparr>"

definition example_state :: IDeploymentsTableState where
  "example_state = \<lparr>deploymentList = None, replicaSetList = example_list\<rparr>"

text \<open>A stand-in for \<^verbatim>\<open>Utils.getPipelineText\<close>: the value of the \<open>pipeline\<close> annotation.\<close>

definition example_getPipelineText :: "annotations option \<Rightarrow> string" where
  "example_getPipelineText a =
     (case a of
        None \<Rightarrow> ''''
      | Some kv \<Rightarrow> (case map_of kv ''pipeline'' of None \<Rightarrow> '''' | Some v \<Rightarrow> v))"

text \<open>A table row as the selection handler receives it, with the two ids left open.\<close>

definition example_row :: "string option \<Rightarrow> string option \<Rightarrow> IDeploymentReplicaSetItem" where
  "example_row dId rsId =
     \<lparr>item_name = Some ''d1'', replicaSetName = Some ''rs1'', deploymentId = dId,
      replicaSetId = rsId, pipeline = None, pods = Some ''3/3'', statusProps = Some Success,
      showRowBorder = Some False, item_deployment = Some d1, item_image = ''nginx'',
      creationTimeStamp = Some 200, item_kind = Some ''ReplicaSet''\<rparr>"

definition example_pod :: V1Pod where
  "example_pod = \<lparr>pod_metadata = example_meta ''p1'' ''ns'' ''p-1'' (Some 10) None\<rparr>"

definition example_store :: WorkloadsStore where
  "example_store = \<lparr>store_orphanPodsList = Some [example_pod], getWorkloadSize = 5\<rparr>"

definition empty_store :: WorkloadsStore where
  "empty_store = \<lparr>store_orphanPodsList = None, getWorkloadSize = 0\<rparr>"

definition bigger_store :: WorkloadsStore where
  "bigger_store = \<lparr>store_orphanPodsList = Some [], getWorkloadSize = 9\<rparr>"

definition no_filter :: "IFilterState option" where
  "no_filter = Some \<lparr>nameFilterItem = None, typeFilterItem = Some []\<rparr>"

definition only_DaemonSets :: "IFilterState option" where
  "only_DaemonSets = Some \<lparr>nameFilterItem = None, typeFilterItem = Some [DaemonSets]\<rparr>"

definition only_Pods :: "IFilterState option" where
  "only_Pods = Some \<lparr>nameFilterItem = None, typeFilterItem = Some [Pods]\<rparr>"

lemmas example_defs =
  example_meta_def example_rs_def d1_def d2_def rs1_def rs2_def rs3_def rs4_def example_list_def

section \<open>Helper lemmas\<close>

subsection \<open>Case-insensitive comparison\<close>

lemma of_char_toLowerCaseChar:
  "(of_char (toLowerCaseChar c) :: nat) =
     (if 65 \<le> (of_char c :: nat) \<and> (of_char c :: nat) \<le> 90 then of_char c + 32 else of_char c)"
  by (simp add: toLowerCaseChar_def Let_def of_char_of)

lemma toLowerCaseChar_eq_iff:
  "toLowerCaseChar a = toLowerCaseChar b \<longleftrightarrow> same_letter a b"
proof -
  have "toLowerCaseChar a = toLowerCaseChar b \<longleftrightarrow>
        (of_char (toLowerCaseChar a) :: nat) = of_char (toLowerCaseChar b)"
    by simp
  also have "\<dots> \<longleftrightarrow> same_letter a b"
    unfolding of_char_toLowerCaseChar same_letter_def Let_def by auto
  finally show ?thesis .
qed

lemma toLowerCase_eq_iff:
  "toLowerCase s = toLowerCase t \<longleftrightarrow> equal_ignoring_case s t"
  unfolding toLowerCase_def equal_ignoring_case_def
proof (induction s arbitrary: t)
  case Nil
  then show ?case by simp
next
  case (Cons a s)
  then show ?case
    by (cases t) (simp_all add: toLowerCaseChar_eq_iff)
qed

subsection \<open>The loop of the association and the sort\<close>

lemma foldl_push: "foldl (\<lambda>acc d. acc @ [f d]) acc ds = acc @ map f ds"
  by (induction ds arbitrary: acc) simp_all

lemma generateDeploymentReplicaSetMap_map:
  "generateDeploymentReplicaSetMap now ds rsl = map (deploymentEntry now rsl) ds"
  by (simp add: generateDeploymentReplicaSetMap_def foldl_push)

lemma set_insert_by: "set (insert_by c x xs) = insert x (set xs)"
  by (induction xs) auto

lemma length_insert_by: "length (insert_by c x xs) = Suc (length xs)"
  by (induction xs) simp_all

lemma length_array_sort: "length (array_sort c xs) = length xs"
  unfolding array_sort_def by (induction xs) (simp_all add: length_insert_by)

lemma array_sort_empty_iff: "array_sort c xs = [] \<longleftrightarrow> xs = []"
  using length_array_sort [of c xs] by (metis length_0_conv)

text \<open>
  For a comparator that subtracts keys, \<open>b\<close>'s from \<open>a\<close>'s the other way round: insertion
  keeps a descending list descending, and never moves an element past one of the same key.
\<close>

lemma sorted_insert_by:
  fixes k :: "'a \<Rightarrow> int"
  assumes "sorted_wrt (\<lambda>a b. k b \<le> k a) xs"
  shows "sorted_wrt (\<lambda>a b. k b \<le> k a) (insert_by (\<lambda>a b. k b - k a) x xs)"
  using assms
proof (induction xs)
  case Nil
  then show ?case by simp
next
  case (Cons y ys)
  show ?case
  proof (cases "k y - k x \<le> 0")
    case True
    with Cons.prems show ?thesis by auto
  next
    case False
    with Cons show ?thesis by (auto simp add: set_insert_by)
  qed
qed

lemma filter_insert_by:
  fixes k :: "'a \<Rightarrow> int"
  shows "filter (\<lambda>y. k y = t) (insert_by (\<lambda>a b. k b - k a) x xs) =
         filter (\<lambda>y. k y = t) (x # xs)"
  by (induction xs) auto

lemma sorted_array_sort:
  fixes k :: "'a \<Rightarrow> int"
  shows "sorted_wrt (\<lambda>a b. k b \<le> k a) (array_sort (\<lambda>a b. k b - k a) xs)"
  unfolding array_sort_def by (induction xs) (simp_all add: sorted_insert_by)

lemma filter_array_sort:
  fixes k :: "'a \<Rightarrow> int"
  shows "filter (\<lambda>y. k y = t) (array_sort (\<lambda>a b. k b - k a) xs) = filter (\<lambda>y. k y = t) xs"
  unfolding array_sort_def by (induction xs) (simp_all add: filter_insert_by)

lemma compareCreationTime_key:
  "compareCreationTime now =
     (\<lambda>a b. getCreationTime now (metadata b) - getCreationTime now (metadata a))"
  by (simp add: compareCreationTime_def fun_eq_iff)

subsection \<open>Rows\<close>

lemma digits_not_empty: "digits n \<noteq> []"
  by (subst digits.simps) simp

lemma number_toString_not_empty: "number_toString i \<noteq> []"
  by (simp add: number_toString_def digits_not_empty)

text \<open>The digits of a number are decimal digits, and read back they give the number.\<close>

lemma parseDecimal_snoc:
  "parseDecimal (ds @ [c]) = 10 * parseDecimal ds + (of_char c - 48)"
  by (simp add: parseDecimal_def)

lemma parseDecimal_digits: "parseDecimal (digits n) = n"
proof (induction n rule: digits.induct)
  case (1 n)
  show ?case
  proof (cases "n < 10")
    case True
    then show ?thesis
      by (subst digits.simps) (simp add: parseDecimal_def of_char_of)
  next
    case False
    with "1" have "parseDecimal (digits (n div 10)) = n div 10" by simp
    with False show ?thesis
      by (subst digits.simps) (simp add: parseDecimal_snoc of_char_of)
  qed
qed

lemma digits_all_digits: "\<forall>c \<in> set (digits n). isDigit c"
proof (induction n rule: digits.induct)
  case (1 n)
  show ?case
  proof (cases "n < 10")
    case True
    then show ?thesis
      by (subst digits.simps) (simp add: isDigit_def of_char_of)
  next
    case False
    with "1" have "\<forall>c \<in> set (digits (n div 10)). isDigit c" by simp
    with False show ?thesis
      by (subst digits.simps) (simp add: isDigit_def of_char_of)
  qed
qed

lemma format_template_facts:
  "isDigit CHR ''0''" "isDigit CHR ''1''" "\<not> isDigit CHR ''}''" "\<not> isDigit CHR ''/''"
  "parseDecimal ''0'' = 0" "parseDecimal ''1'' = 1" "digits 0 = ''0''" "digits (Suc 0) = ''1''"
  by code_simp+

lemma format_two_places: "format ''{0}/{1}'' [x, y] = x @ ''/'' @ y"
  by (simp add: format.simps argument_def format_template_facts)

lemma getDeploymentReplicaSetItem_pipeline:
  assumes "getDeploymentReplicaSetItem gp d r i n = Inr row"
  shows "pipeline row =
           Some (gp (annotations (if i = 0 then deployment_metadata d else metadata r)))"
  using assms
  by (auto simp add: getDeploymentReplicaSetItem_def Let_def split: list.splits)

lemma getDeploymentReplicaSetItem_Inr_iff:
  "(\<exists>row. getDeploymentReplicaSetItem gp d r i n = Inr row)
     \<longleftrightarrow> containers (pod_spec (template (spec r))) \<noteq> []"
  by (auto simp add: getDeploymentReplicaSetItem_def Let_def split: list.splits)

text \<open>
  The loop, from any index and with any rows already pushed: when it ends normally it has
  kept the rows it had and added, for every replica set left, the row that
  \<open>getDeploymentReplicaSetItem\<close> builds at that replica set's index.
\<close>

lemma itemsFrom_Inr:
  assumes "itemsFrom gp d n i rss acc = Inr rows"
  shows "length rows = length acc + length rss
    \<and> take (length acc) rows = acc
    \<and> (\<forall>j < length rss.
          getDeploymentReplicaSetItem gp d (rss ! j) (i + j) n = Inr (rows ! (length acc + j)))"
  using assms
proof (induction rss arbitrary: i acc)
  case Nil
  then show ?case by simp
next
  case (Cons r rss)
  from Cons.prems obtain row where
    row: "getDeploymentReplicaSetItem gp d r i n = Inr row"
    and rest: "itemsFrom gp d n (i + 1) rss (acc @ [row]) = Inr rows"
    by (auto split: sum.splits)
  from Cons.IH [OF rest] have
    len: "length rows = length (acc @ [row]) + length rss"
    and tk: "take (length (acc @ [row])) rows = acc @ [row]"
    and nth: "\<forall>j < length rss.
          getDeploymentReplicaSetItem gp d (rss ! j) (i + 1 + j) n =
            Inr (rows ! (length (acc @ [row]) + j))"
    by blast+
  from tk len have tk': "take (length acc) rows = acc"
    by (metis append_eq_conv_conj length_append take_add append_take_drop_id append.assoc)
  have here: "rows ! length acc = row"
  proof -
    have "rows ! length acc = take (length (acc @ [row])) rows ! length acc"
      by simp
    also have "\<dots> = row" by (simp only: tk) simp
    finally show ?thesis .
  qed
  have "getDeploymentReplicaSetItem gp d ((r # rss) ! j) (i + j) n = Inr (rows ! (length acc + j))"
    if "j < length (r # rss)" for j
  proof (cases j)
    case 0
    with row here show ?thesis by simp
  next
    case (Suc k)
    with that nth show ?thesis by simp
  qed
  with len tk' show ?case by simp
qed

lemma itemsFrom_Inr_iff:
  "(\<exists>rows. itemsFrom gp d n i rss acc = Inr rows)
     \<longleftrightarrow> (\<forall>r \<in> set rss. containers (pod_spec (template (spec r))) \<noteq> [])"
proof (induction rss arbitrary: i acc)
  case Nil
  then show ?case by simp
next
  case (Cons r rss)
  show ?case
  proof (cases "getDeploymentReplicaSetItem gp d r i n")
    case (Inl e)
    with getDeploymentReplicaSetItem_Inr_iff [of gp d r i n] show ?thesis by simp
  next
    case (Inr row)
    with getDeploymentReplicaSetItem_Inr_iff [of gp d r i n] Cons.IH [of "i + 1" "acc @ [row]"]
    show ?thesis by simp
  qed
qed

subsection \<open>Selection\<close>

lemma getSelectedReplicaSet_Some:
  "getSelectedReplicaSet st (Some sel) =
     (if truthy (deploymentId sel) \<and> truthy (replicaSetId sel) then
        (case filter (\<lambda>r. equal_ignoring_case (uid (metadata r)) (the (replicaSetId sel)))
                (replicaSetItems (replicaSetList st)) of
           [] \<Rightarrow> None
         | first # _ \<Rightarrow> Some first)
      else None)"
  by (cases "replicaSetId sel")
     (simp_all add: getSelectedReplicaSet_def truthy_def Let_def toLowerCase_eq_iff)

subsection \<open>The pivot\<close>

lemma indexOf_ge: "indexOf xs x \<ge> - 1"
  by (induction xs) (simp_all add: Let_def)

lemma indexOf_found_iff: "indexOf xs x \<noteq> - 1 \<longleftrightarrow> x \<in> set xs"
proof (induction xs)
  case Nil
  then show ?case by simp
next
  case (Cons y ys)
  with indexOf_ge [of ys x] show ?case by (auto simp add: Let_def)
qed

lemma showComponent_iff:
  "showComponent fs t \<longleftrightarrow> getTypeFilterValue fs = [] \<or> t \<in> set (getTypeFilterValue fs)"
  by (auto simp add: showComponent_def Let_def indexOf_found_iff)

lemma shownTypes_getContent:
  "shownTypes (getContent store fs st) =
     (if workloadResourceSize st = 0 then []
      else (if showComponent fs Deployments then [Deployments] else [])
         @ (if showComponent fs DaemonSets then [DaemonSets] else [])
         @ (if showComponent fs StatefulSets then [StatefulSets] else [])
         @ (if (case orphanPodsList st of None \<Rightarrow> False | Some ps \<Rightarrow> length ps > 0)
               \<and> showComponent fs Pods then [Pods] else []))"
  by (simp add: shownTypes_def getContent_def getDeployments_def getDaemonSetsComponent_def
        getStatefulSetsComponent_def getOrphanPods_def List.map_filter_simps)

lemma onDataFound_positive: "0 < workloadResourceSize st \<Longrightarrow> onDataFound store st = st"
  by (simp add: onDataFound_def)

lemma handleEvent_positive:
  "0 < workloadResourceSize st \<Longrightarrow>
     workloadResourceSize (handleEvent st ev) = workloadResourceSize st"
  by (cases ev) (simp_all add: onDataFound_positive onPodsFetched_def)

lemma handleEvents_positive:
  "0 < workloadResourceSize st \<Longrightarrow>
     workloadResourceSize (handleEvents st evs) = workloadResourceSize st"
  unfolding handleEvents_def
  by (induction evs arbitrary: st) (simp_all add: handleEvent_positive)

subsection \<open>The example, run\<close>

lemma example_map:
  "generateDeploymentReplicaSetMap 0 [d1, d2] example_list =
     [\<lparr>deployment = d1, replicaSets = [rs1, rs3, rs2]\<rparr>, \<lparr>deployment = d2, replicaSets = []\<rparr>]"
  by code_simp

lemma example_rows:
  "map_sum id (map (\<lambda>row. (replicaSetName row, pods row, statusProps row)))
     (getDeploymentReplicaSetItems example_getPipelineText d1 [rs1, rs2]) =
   Inr [(Some ''rs1'', Some ''3/3'', Some Success), (Some ''rs2'', Some ''1/3'', Some Running)]"
  by code_simp

section \<open>Claims\<close>

text \<open>
  C1. For every deployment and every replica set, \<^verbatim>\<open>_isReplicaSetForDeployment\<close> holds if and
  only if the replica set's namespace equals the deployment's namespace case-insensitively
  and the replica set has a first owner reference whose uid equals the deployment's uid
  case-insensitively. A replica set with no owner reference (the list missing or empty)
  has no first owner reference, and is associated with no deployment.
\<close>

theorem isReplicaSetForDeployment_iff:
  "isReplicaSetForDeployment (Some d) (Some r) \<longleftrightarrow>
     equal_ignoring_case (namespace (metadata r)) (namespace (deployment_metadata d))
     \<and> (\<exists>first others. ownerReferences (metadata r) = Some (first # others)
            \<and> equal_ignoring_case (owner_uid first) (uid (deployment_metadata d)))"
proof (cases "ownerReferences (metadata r)")
  case None
  then show ?thesis by (simp add: isReplicaSetForDeployment_def)
next
  case (Some refs)
  then show ?thesis
    by (cases refs) (simp_all add: isReplicaSetForDeployment_def toLowerCase_eq_iff)
qed

text \<open>
  C2. For every deployment of the input, at its position \<open>i\<close>, the entry that
  \<^verbatim>\<open>_generateDeploymentReplicaSetMap\<close> produces is that deployment's, its replica sets are in
  descending order of \<^verbatim>\<open>_getCreationTime\<close>, and for every timestamp \<open>t\<close> the replica sets
  created at \<open>t\<close> stand in the order they have in the list of replica sets owned by the
  deployment (the sort is stable, and loses and adds nothing).
\<close>

theorem replicaSets_sorted_descending_stable:
  assumes "i < length ds"
  shows "deployment (generateDeploymentReplicaSetMap now ds rsl ! i) = ds ! i
    \<and> sorted_wrt (\<lambda>a b. getCreationTime now (metadata a) \<ge> getCreationTime now (metadata b))
        (replicaSets (generateDeploymentReplicaSetMap now ds rsl ! i))
    \<and> (\<forall>t. filter (\<lambda>r. getCreationTime now (metadata r) = t)
              (replicaSets (generateDeploymentReplicaSetMap now ds rsl ! i))
           = filter (\<lambda>r. getCreationTime now (metadata r) = t)
              (filter (\<lambda>r. isReplicaSetForDeployment (Some (ds ! i)) (Some r))
                 (replicaSetItems rsl)))"
  using assms
  by (simp add: generateDeploymentReplicaSetMap_map deploymentEntry_def Let_def
        compareCreationTime_key sorted_array_sort filter_array_sort)

text \<open>
  On the example, whose list holds \<open>rs2, rs1, rs4, rs3\<close> in this order: the replica sets of
  \<open>d1\<close> come out as \<open>rs1, rs3, rs2\<close>, the two created at 200 in their list order.
\<close>

theorem replicaSets_sorted_descending_stable_witness:
  "(0::nat) < length [d1, d2]
   \<and> replicaSets (generateDeploymentReplicaSetMap 0 [d1, d2] example_list ! 0) = [rs1, rs3, rs2]
   \<and> getCreationTime 0 (metadata rs3) \<le> getCreationTime 0 (metadata rs1)
   \<and> getCreationTime 0 (metadata rs2) \<le> getCreationTime 0 (metadata rs3)"
proof -
  have h: "(0::nat) < length [d1, d2]" by simp
  have e: "replicaSets (generateDeploymentReplicaSetMap 0 [d1, d2] example_list ! 0) = [rs1, rs3, rs2]"
    by (simp add: example_map)
  from replicaSets_sorted_descending_stable [OF h, of 0 example_list] h e
  show ?thesis by simp
qed

text \<open>
  C3, as amended. The status indicator is "running" if and only if both counts are known,
  \<open>replicas > 0\<close> and \<open>availableReplicas < replicas\<close> (zero available replicas included); it
  is "success" if and only if both counts are known, \<open>replicas > 0\<close> and
  \<open>availableReplicas \<ge> replicas\<close>; it is absent in every other case, that is when a count
  is unknown or \<open>replicas \<le> 0\<close>.
\<close>

theorem getPodsStatusProps_cases:
  "(getPodsStatusProps a r = Some Success
      \<longleftrightarrow> (\<exists>x y. a = Some x \<and> r = Some y \<and> 0 < y \<and> y \<le> x))
   \<and> (getPodsStatusProps a r = Some Running
      \<longleftrightarrow> (\<exists>x y. a = Some x \<and> r = Some y \<and> 0 < y \<and> x < y))
   \<and> (getPodsStatusProps a r = None
      \<longleftrightarrow> (a = None \<or> r = None \<or> (\<exists>y. r = Some y \<and> y \<le> 0)))"
  by (cases a; cases r) (auto simp add: getPodsStatusProps_def)

text \<open>
  C3 as stated fails: with no replica available out of three the status is "running",
  though \<open>0 < availableReplicas\<close> does not hold; and with four available out of three it is
  "success", though the counts differ.
\<close>

theorem getPodsStatusProps_counterexample:
  "getPodsStatusProps (Some 0) (Some 3) = Some Running \<and> \<not> (0 < (0::int) \<and> (0::int) < 3)
   \<and> getPodsStatusProps (Some 4) (Some 3) = Some Success \<and> (4::int) \<noteq> 3"
  by (simp add: getPodsStatusProps_def)

text \<open>
  C4. The pods text is \<open>availableReplicas/replicas\<close>, both in decimal, when both counts are
  known and \<open>replicas > 0\<close>; it is the empty string when \<open>replicas\<close> is zero (or less) or
  either count is unknown. So the text is non-empty exactly when both counts are known and
  \<open>replicas > 0\<close>.
\<close>

theorem getPodsText_cases:
  "(0 < r \<longrightarrow> getPodsText (Some a) (Some r) = number_toString a @ ''/'' @ number_toString r)
   \<and> (r \<le> 0 \<longrightarrow> getPodsText x (Some r) = '''')
   \<and> getPodsText None y = ''''
   \<and> getPodsText x None = ''''
   \<and> (getPodsText x y \<noteq> '''' \<longleftrightarrow> (\<exists>a' r'. x = Some a' \<and> y = Some r' \<and> 0 < r'))"
  by (cases x; cases y)
     (auto simp add: getPodsText_def format_two_places number_toString_not_empty)

theorem getPodsText_witness:
  "(0::int) < 3 \<and> getPodsText (Some 1) (Some 3) = ''1/3''
   \<and> (0::int) \<le> 0 \<and> getPodsText (Some 0) (Some 0) = ''''
   \<and> getPodsText (Some 10) (Some 12) = ''10/12''"
proof -
  have n: "number_toString 1 = ''1''" "number_toString 3 = ''3''"
    "number_toString 10 = ''10''" "number_toString 12 = ''12''"
    by code_simp+
  from getPodsText_cases [of 3 1 "Some 0" None] getPodsText_cases [of 0 0 "Some 0" None]
    getPodsText_cases [of 12 10 "Some 0" None] n
  show ?thesis by simp
qed

text \<open>
  C5. \<^verbatim>\<open>_getDeploymentReplicaSetItems\<close> builds its list of rows exactly when every replica
  set has a container to take the image from. The list then has one row per replica set,
  and the pipeline of the row at index 0 is \<^verbatim>\<open>getPipelineText\<close> of the deployment's own
  annotations, that of every row at an index above 0 is \<^verbatim>\<open>getPipelineText\<close> of the
  annotations of the replica set at that index.
\<close>

theorem pipeline_source:
  "((\<exists>rows. getDeploymentReplicaSetItems gp d rss = Inr rows)
      \<longleftrightarrow> (\<forall>r \<in> set rss. containers (pod_spec (template (spec r))) \<noteq> []))
   \<and> (\<forall>rows. getDeploymentReplicaSetItems gp d rss = Inr rows \<longrightarrow>
         length rows = length rss
         \<and> (\<forall>i < length rss.
               pipeline (rows ! i) =
                 Some (gp (annotations (if i = 0 then deployment_metadata d
                                        else metadata (rss ! i))))))"
proof -
  have "length rows = length rss
        \<and> (\<forall>i < length rss.
               pipeline (rows ! i) =
                 Some (gp (annotations (if i = 0 then deployment_metadata d
                                        else metadata (rss ! i)))))"
    if "getDeploymentReplicaSetItems gp d rss = Inr rows" for rows
  proof -
    from that have "itemsFrom gp d (length rss) 0 rss [] = Inr rows"
      by (simp add: getDeploymentReplicaSetItems_def)
    from itemsFrom_Inr [OF this] have len: "length rows = length rss"
      and nth: "\<And>j. j < length rss \<Longrightarrow>
          getDeploymentReplicaSetItem gp d (rss ! j) j (length rss) = Inr (rows ! j)"
      by simp_all
    have "pipeline (rows ! i) =
            Some (gp (annotations (if i = 0 then deployment_metadata d else metadata (rss ! i))))"
      if "i < length rss" for i
      using getDeploymentReplicaSetItem_pipeline [OF nth [OF that]] .
    with len show ?thesis by blast
  qed
  then show ?thesis
    by (simp add: getDeploymentReplicaSetItems_def itemsFrom_Inr_iff)
qed

text \<open>
  On the example, where every object's \<open>pipeline\<close> annotation is its own name: the first
  row shows the deployment's annotation, the later rows their replica set's.
\<close>

theorem pipeline_source_witness:
  "containers (pod_spec (template (spec rs1))) \<noteq> []
   \<and> containers (pod_spec (template (spec rs3))) \<noteq> []
   \<and> containers (pod_spec (template (spec rs2))) \<noteq> []
   \<and> map_sum id (map pipeline)
         (getDeploymentReplicaSetItems example_getPipelineText d1 [rs1, rs3, rs2])
       = Inr [Some ''d1'', Some ''rs3'', Some ''rs2'']"
proof -
  have c: "containers (pod_spec (template (spec rs1))) \<noteq> []"
    "containers (pod_spec (template (spec rs3))) \<noteq> []"
    "containers (pod_spec (template (spec rs2))) \<noteq> []"
    by (simp_all add: example_defs)
  then have "\<forall>r \<in> set [rs1, rs3, rs2]. containers (pod_spec (template (spec r))) \<noteq> []"
    by simp
  with pipeline_source [of example_getPipelineText d1 "[rs1, rs3, rs2]"]
  obtain rows where
    r: "getDeploymentReplicaSetItems example_getPipelineText d1 [rs1, rs3, rs2] = Inr rows"
    by blast
  with pipeline_source [of example_getPipelineText d1 "[rs1, rs3, rs2]"]
  have len: "length rows = 3"
    and p: "\<And>i. i < 3 \<Longrightarrow> pipeline (rows ! i) =
        Some (example_getPipelineText (annotations (if i = 0 then deployment_metadata d1
                                        else metadata ([rs1, rs3, rs2] ! i))))"
    by simp_all
  have "pipeline (rows ! 0) = Some ''d1''" "pipeline (rows ! 1) = Some ''rs3''"
    "pipeline (rows ! 2) = Some ''rs2''"
    using p [of 0] p [of 1] p [of 2]
    by (simp_all add: example_defs example_getPipelineText_def)
  moreover from len have "rows = [rows ! 0, rows ! 1, rows ! 2]"
    by (auto simp add: list_eq_iff_nth_eq less_Suc_eq numeral_3_eq_3 numeral_2_eq_2)
  ultimately have "map pipeline rows = [Some ''d1'', Some ''rs3'', Some ''rs2'']"
    by (metis list.simps(8,9))
  with r c show ?thesis by simp
qed

text \<open>
  C6. \<^verbatim>\<open>_generateDeploymentReplicaSetMap\<close> produces exactly one entry per deployment, in
  input order; an entry's list of replica sets is empty exactly when the deployment owns no
  replica set of the list, so a deployment owning none still has its entry.
\<close>

theorem one_entry_per_deployment:
  "map deployment (generateDeploymentReplicaSetMap now ds rsl) = ds
   \<and> length (generateDeploymentReplicaSetMap now ds rsl) = length ds
   \<and> (\<forall>i < length ds.
        replicaSets (generateDeploymentReplicaSetMap now ds rsl ! i) = []
        \<longleftrightarrow> (\<forall>r \<in> set (replicaSetItems rsl).
               \<not> isReplicaSetForDeployment (Some (ds ! i)) (Some r)))"
  by (simp add: generateDeploymentReplicaSetMap_map deploymentEntry_def Let_def comp_def
        array_sort_empty_iff filter_empty_conv map_idI)

text \<open>
  On the example: \<open>d2\<close> owns none of the four replica sets, and has its entry, the second,
  with an empty list.
\<close>

theorem one_entry_per_deployment_witness:
  "(1::nat) < length [d1, d2]
   \<and> \<not> isReplicaSetForDeployment (Some d2) (Some rs1)
   \<and> \<not> isReplicaSetForDeployment (Some d2) (Some rs2)
   \<and> \<not> isReplicaSetForDeployment (Some d2) (Some rs3)
   \<and> \<not> isReplicaSetForDeployment (Some d2) (Some rs4)
   \<and> map deployment (generateDeploymentReplicaSetMap 0 [d1, d2] example_list) = [d1, d2]
   \<and> replicaSets (generateDeploymentReplicaSetMap 0 [d1, d2] example_list ! 1) = []"
proof -
  have n: "\<not> isReplicaSetForDeployment (Some d2) (Some rs1)"
    "\<not> isReplicaSetForDeployment (Some d2) (Some rs2)"
    "\<not> isReplicaSetForDeployment (Some d2) (Some rs3)"
    "\<not> isReplicaSetForDeployment (Some d2) (Some rs4)"
    by code_simp+
  have i: "replicaSetItems example_list = [rs2, rs1, rs4, rs3]"
    by (simp add: replicaSetItems_def example_list_def)
  from one_entry_per_deployment [of 0 "[d1, d2]" example_list] n i
  show ?thesis by simp
qed

text \<open>
  C7, as amended. \<^verbatim>\<open>_showComponent\<close> holds for every resource type when the selection is
  empty and, when it is not, exactly for the types in the selection. A table is rendered
  only when \<^verbatim>\<open>workloadResourceSize\<close> is not zero; then the Deployments, DaemonSets and
  StatefulSets tables are rendered if and only if \<^verbatim>\<open>_showComponent\<close> holds for their type,
  and the Pods table if and only if it holds for Pods and the state's list of orphan pods is
  not empty. So selecting only DaemonSets hides the Deployments, StatefulSets and Pods
  tables whatever the data.
\<close>

theorem type_filter_tables:
  "(showComponent fs t \<longleftrightarrow> getTypeFilterValue fs = [] \<or> t \<in> set (getTypeFilterValue fs))
   \<and> (t \<in> set (shownTypes (getContent store fs st)) \<longleftrightarrow>
        workloadResourceSize st \<noteq> 0 \<and> showComponent fs t
        \<and> (t = Deployments \<or> t = DaemonSets \<or> t = StatefulSets
            \<or> (t = Pods \<and> (\<exists>ps. orphanPodsList st = Some ps \<and> ps \<noteq> []))))
   \<and> (getTypeFilterValue fs = [DaemonSets] \<longrightarrow>
        Deployments \<notin> set (shownTypes (getContent store fs st))
        \<and> StatefulSets \<notin> set (shownTypes (getContent store fs st))
        \<and> Pods \<notin> set (shownTypes (getContent store fs st)))"
proof -
  have shown: "t \<in> set (shownTypes (getContent store fs st)) \<longleftrightarrow>
        workloadResourceSize st \<noteq> 0 \<and> showComponent fs t
        \<and> (t = Deployments \<or> t = DaemonSets \<or> t = StatefulSets
            \<or> (t = Pods \<and> (\<exists>ps. orphanPodsList st = Some ps \<and> ps \<noteq> [])))" for t
    unfolding shownTypes_getContent
    by (cases t) (auto split: option.splits list.splits)
  show ?thesis
    by (simp add: shown showComponent_iff)
qed

theorem type_filter_tables_witness:
  "getTypeFilterValue only_DaemonSets = [DaemonSets]
   \<and> Deployments \<notin> set (shownTypes (getContent example_store only_DaemonSets
        \<lparr>workloadResourceSize = 5, orphanPodsList = Some [example_pod]\<rparr>))
   \<and> StatefulSets \<notin> set (shownTypes (getContent example_store only_DaemonSets
        \<lparr>workloadResourceSize = 5, orphanPodsList = Some [example_pod]\<rparr>))
   \<and> Pods \<notin> set (shownTypes (getContent example_store only_DaemonSets
        \<lparr>workloadResourceSize = 5, orphanPodsList = Some [example_pod]\<rparr>))"
proof -
  have h: "getTypeFilterValue only_DaemonSets = [DaemonSets]"
    by (simp add: only_DaemonSets_def getTypeFilterValue_def)
  from type_filter_tables [of only_DaemonSets Pods example_store
      "\<lparr>workloadResourceSize = 5, orphanPodsList = Some [example_pod]\<rparr>"] h
  show ?thesis by blast
qed

text \<open>
  C7 as stated fails. With an empty selection and five workloads but no orphan pod, the
  Pods table is not rendered; with an empty selection and a workload size of zero no table
  is rendered at all; and with Pods selected but no orphan pod, the Pods table is not
  rendered although its type is in the selection.
\<close>

theorem type_filter_counterexample:
  "getTypeFilterValue no_filter = []
   \<and> shownTypes (getContent example_store no_filter
        \<lparr>workloadResourceSize = 5, orphanPodsList = Some []\<rparr>)
       = [Deployments, DaemonSets, StatefulSets]
   \<and> shownTypes (getContent example_store no_filter
        \<lparr>workloadResourceSize = 0, orphanPodsList = Some [example_pod]\<rparr>) = []
   \<and> getTypeFilterValue only_Pods = [Pods]
   \<and> shownTypes (getContent example_store only_Pods
        \<lparr>workloadResourceSize = 5, orphanPodsList = Some []\<rparr>) = []"
  by (simp add: no_filter_def only_Pods_def getTypeFilterValue_def shownTypes_def getContent_def
      showComponent_def getDeployments_def getDaemonSetsComponent_def getStatefulSetsComponent_def
      getOrphanPods_def List.map_filter_def)

text \<open>
  C8. When \<^verbatim>\<open>workloadResourceSize\<close> is zero, the content is the zero-data placeholder alone,
  with the link to the Kubernetes documentation and the "no workloads" texts, and no table;
  when it is not zero, neither the content nor any of its children is the placeholder.
\<close>

theorem zero_data_placeholder:
  "(workloadResourceSize st = 0 \<longrightarrow>
      getContent store fs st =
        KubeZeroData ''https://kubernetes.io/docs/concepts/workloads/pods/pod/''
          LearnMoreText NoWorkLoadsText NoWorkLoadsText
      \<and> renderedTables (getContent store fs st) = [])
   \<and> (workloadResourceSize st \<noteq> 0 \<longrightarrow>
        \<not> isZeroData (getContent store fs st)
        \<and> (\<forall>e \<in> set (renderedChildren (getContent store fs st)). \<not> isZeroData e))"
  by (auto simp add: getContent_def renderedTables_def getDeployments_def
        getDaemonSetsComponent_def getStatefulSetsComponent_def getOrphanPods_def
        List.map_filter_simps)

theorem zero_data_placeholder_witness:
  "workloadResourceSize initialState = 0
   \<and> getContent example_store no_filter initialState =
        KubeZeroData ''https://kubernetes.io/docs/concepts/workloads/pods/pod/''
          LearnMoreText NoWorkLoadsText NoWorkLoadsText
   \<and> renderedTables (getContent example_store no_filter initialState) = []
   \<and> workloadResourceSize (onDataFound example_store initialState) \<noteq> 0
   \<and> \<not> isZeroData (getContent example_store no_filter (onDataFound example_store initialState))"
proof -
  have a: "workloadResourceSize initialState = 0"
    by (simp add: initialState_def)
  have b: "workloadResourceSize (onDataFound example_store initialState) \<noteq> 0"
    by (simp add: initialState_def onDataFound_def example_store_def)
  from zero_data_placeholder [of initialState example_store no_filter]
    zero_data_placeholder [of "onDataFound example_store initialState" example_store no_filter] a b
  show ?thesis by blast
qed

text \<open>
  C9. A row carries an id when the id is there and not empty, which is what the source
  tests. For an activated row that carries a deployment id and a replica set id, when the
  stored list has a replica set whose uid equals the row's replica set id case-insensitively,
  \<^verbatim>\<open>selectItem\<close> is invoked once, with the first such replica set, \<^verbatim>\<open>showSelectedItem\<close> set
  and the \<^verbatim>\<open>ReplicaSetKey\<close> tag. When either id is missing, when no replica set of the list
  has that uid, or when there is no row, nothing is invoked.
\<close>

theorem selection_event:
  "(truthy (deploymentId sel) \<and> replicaSetId sel = Some rsId \<and> rsId \<noteq> []
      \<and> filter (\<lambda>r. equal_ignoring_case (uid (metadata r)) rsId)
           (replicaSetItems (replicaSetList st)) = first # others
     \<longrightarrow> openDeploymentItem ReplicaSetKey st hub (Some sel) =
           hub @ [\<lparr>item = first, showSelectedItem = True, selectedItemType = ReplicaSetKey\<rparr>])
   \<and> (\<not> truthy (deploymentId sel) \<or> \<not> truthy (replicaSetId sel)
     \<longrightarrow> openDeploymentItem ReplicaSetKey st hub (Some sel) = hub)
   \<and> (replicaSetId sel = Some rsId
        \<and> (\<forall>r \<in> set (replicaSetItems (replicaSetList st)).
              \<not> equal_ignoring_case (uid (metadata r)) rsId)
     \<longrightarrow> openDeploymentItem ReplicaSetKey st hub (Some sel) = hub)
   \<and> openDeploymentItem ReplicaSetKey st hub None = hub"
proof -
  have none: "openDeploymentItem ReplicaSetKey st hub None = hub"
    by (simp add: openDeploymentItem_def getSelectedReplicaSet_def)
  have missing: "openDeploymentItem ReplicaSetKey st hub (Some sel) = hub"
    if "\<not> truthy (deploymentId sel) \<or> \<not> truthy (replicaSetId sel)"
    using that by (auto simp add: openDeploymentItem_def getSelectedReplicaSet_Some)
  have absent: "openDeploymentItem ReplicaSetKey st hub (Some sel) = hub"
    if "replicaSetId sel = Some rsId"
      and "\<forall>r \<in> set (replicaSetItems (replicaSetList st)).
              \<not> equal_ignoring_case (uid (metadata r)) rsId"
  proof -
    from that(2) have "filter (\<lambda>r. equal_ignoring_case (uid (metadata r)) rsId)
           (replicaSetItems (replicaSetList st)) = []"
      by (simp add: filter_empty_conv)
    with that(1) show ?thesis
      by (simp add: openDeploymentItem_def getSelectedReplicaSet_Some)
  qed
  have found: "openDeploymentItem ReplicaSetKey st hub (Some sel) =
           hub @ [\<lparr>item = first, showSelectedItem = True, selectedItemType = ReplicaSetKey\<rparr>]"
    if "truthy (deploymentId sel)" "replicaSetId sel = Some rsId" "rsId \<noteq> []"
      "filter (\<lambda>r. equal_ignoring_case (uid (metadata r)) rsId)
           (replicaSetItems (replicaSetList st)) = first # others"
    using that by (simp add: openDeploymentItem_def getSelectedReplicaSet_Some truthy_def)
  from none missing absent found show ?thesis by blast
qed

text \<open>
  On the example: the row with replica set id \<open>R1\<close> selects \<open>rs1\<close>, whose uid is \<open>r1\<close>; a
  row without deployment id, and a row whose replica set id \<open>r7\<close> no replica set has, select
  nothing.
\<close>

theorem selection_event_witness:
  "truthy (deploymentId (example_row (Some ''u1'') (Some ''R1'')))
   \<and> replicaSetId (example_row (Some ''u1'') (Some ''R1'')) = Some ''R1''
   \<and> openDeploymentItem ''replica-set'' example_state []
        (Some (example_row (Some ''u1'') (Some ''R1'')))
       = [\<lparr>item = rs1, showSelectedItem = True, selectedItemType = ''replica-set''\<rparr>]
   \<and> \<not> truthy (deploymentId (example_row None (Some ''r1'')))
   \<and> openDeploymentItem ''replica-set'' example_state []
        (Some (example_row None (Some ''r1''))) = []
   \<and> replicaSetId (example_row (Some ''u1'') (Some ''r7'')) = Some ''r7''
   \<and> openDeploymentItem ''replica-set'' example_state []
        (Some (example_row (Some ''u1'') (Some ''r7''))) = []"
proof -
  have items: "replicaSetItems (replicaSetList example_state) = [rs2, rs1, rs4, rs3]"
    by (simp add: example_state_def example_list_def replicaSetItems_def)
  have uids: "uid (metadata rs1) = ''r1''" "uid (metadata rs2) = ''r2''"
    "uid (metadata rs3) = ''r3''" "uid (metadata rs4) = ''r4''"
    by (simp_all add: example_defs)
  have eq: "equal_ignoring_case ''r1'' ''R1''" "\<not> equal_ignoring_case ''r2'' ''R1''"
    "\<not> equal_ignoring_case ''r3'' ''R1''" "\<not> equal_ignoring_case ''r4'' ''R1''"
    "\<not> equal_ignoring_case ''r1'' ''r7''" "\<not> equal_ignoring_case ''r2'' ''r7''"
    "\<not> equal_ignoring_case ''r3'' ''r7''" "\<not> equal_ignoring_case ''r4'' ''r7''"
    by (simp_all add: equal_ignoring_case_def same_letter_def)
  have f: "filter (\<lambda>r. equal_ignoring_case (uid (metadata r)) ''R1'')
           (replicaSetItems (replicaSetList example_state)) = rs1 # []"
    by (simp add: items uids eq)
  have g: "\<forall>r \<in> set (replicaSetItems (replicaSetList example_state)).
              \<not> equal_ignoring_case (uid (metadata r)) ''r7''"
    by (simp add: items uids eq)
  have t: "truthy (deploymentId (example_row (Some ''u1'') (Some ''R1'')))"
    "replicaSetId (example_row (Some ''u1'') (Some ''R1'')) = Some ''R1''"
    "\<not> truthy (deploymentId (example_row None (Some ''r1'')))"
    "replicaSetId (example_row (Some ''u1'') (Some ''r7'')) = Some ''r7''"
    by (simp_all add: example_row_def truthy_def)
  from selection_event [of "example_row (Some ''u1'') (Some ''R1'')" "''R1''" example_state rs1 "[]"
      "''replica-set''" "[]"]
    selection_event [of "example_row None (Some ''r1'')" "''r1''" example_state rs1 "[]"
      "''replica-set''" "[]"]
    selection_event [of "example_row (Some ''u1'') (Some ''r7'')" "''r7''" example_state rs1 "[]"
      "''replica-set''" "[]"]
    f g t
  show ?thesis by simp
qed

text \<open>
  C10. \<^verbatim>\<open>_onDataFound\<close> writes \<^verbatim>\<open>workloadResourceSize\<close> only when the state's value is at most
  zero and the store reports a size above zero, and writes nothing else. Once the value is
  positive, \<^verbatim>\<open>_onDataFound\<close> leaves the state as it is, the value stays what it is through
  every sequence of store events, whatever sizes the store reports later, and the content
  is never the "no workloads" placeholder again.
\<close>

theorem size_written_once:
  "workloadResourceSize (onDataFound store st) =
      (if workloadResourceSize st \<le> 0 \<and> 0 < getWorkloadSize store
       then getWorkloadSize store else workloadResourceSize st)
   \<and> orphanPodsList (onDataFound store st) = orphanPodsList st
   \<and> (0 < workloadResourceSize st \<longrightarrow>
        onDataFound store st = st
        \<and> workloadResourceSize (handleEvents st evs) = workloadResourceSize st
        \<and> \<not> isZeroData (getContent store' fs (handleEvents st evs)))"
proof -
  have "\<not> isZeroData (getContent store' fs (handleEvents st evs))"
    if "0 < workloadResourceSize st"
  proof -
    from that have "workloadResourceSize (handleEvents st evs) \<noteq> 0"
      by (simp add: handleEvents_positive)
    then show ?thesis by (simp add: getContent_def)
  qed
  then show ?thesis
    by (simp add: onDataFound_def Let_def handleEvents_positive)
qed

text \<open>
  On the example: after the store reported five workloads, a report of none, a pods event
  and a report of nine leave the size at five and the tables in place.
\<close>

theorem size_written_once_witness:
  "0 < workloadResourceSize (onDataFound example_store initialState)
   \<and> workloadResourceSize
        (handleEvents (onDataFound example_store initialState)
           [WorkloadsFoundEvent empty_store, WorkloadPodsFetchedEvent empty_store,
            WorkloadsFoundEvent bigger_store]) = 5
   \<and> \<not> isZeroData (getContent empty_store no_filter
        (handleEvents (onDataFound example_store initialState)
           [WorkloadsFoundEvent empty_store, WorkloadPodsFetchedEvent empty_store,
            WorkloadsFoundEvent bigger_store]))"
proof -
  have s: "workloadResourceSize (onDataFound example_store initialState) = 5"
    by (simp add: initialState_def onDataFound_def example_store_def)
  then have h: "0 < workloadResourceSize (onDataFound example_store initialState)"
    by simp
  from size_written_once [of example_store "onDataFound example_store initialState"
      "[WorkloadsFoundEvent empty_store, WorkloadPodsFetchedEvent empty_store,
            WorkloadsFoundEvent bigger_store]" empty_store no_filter] h s
  show ?thesis by simp
qed

end
